theory Spec2Isabelle
  imports Main "HOL-Library.Char_ord" "HOL-Library.List_Lexorder"
begin

section \<open>Enumerations of the admin API\<close>

text \<open>
  The module \<^verbatim>\<open>maintenance.py\<close> imports four enumerations from the Thrift
  definitions of the admin API.  Their declarations are not part of the module, so each
  enumeration is modelled by the members that the module names, plus one constructor
  standing for every other member of the enumeration, identified by its name.  Every
  statement below therefore holds whatever further members the declarations have.
\<close>

datatype ShardOperationalState =
    OpState_UNKNOWN
  | OpState_MAY_DISAPPEAR
  | OpState_DRAINED
  | OpState_PROVISIONING
  | OpState_MIGRATING_DATA
  | OpState_Other string

datatype MaintenanceStatus =
    MStatus_BLOCKED_UNTIL_SAFE
  | MStatus_REBUILDING_IS_BLOCKED
  | MStatus_COMPLETED
  | MStatus_Other string

datatype MaintenanceProgress =
    MProgress_UNKNOWN
  | MProgress_BLOCKED_UNTIL_SAFE
  | MProgress_IN_PROGRESS
  | MProgress_COMPLETED
  | MProgress_Other string

datatype MaintenancePriority =
    MPriority_IMMINENT
  | MPriority_HIGH
  | MPriority_MEDIUM
  | MPriority_LOW
  | MPriority_Other string

text \<open>The attribute \<^verbatim>\<open>.name\<close> of an enumeration member.\<close>

fun ShardOperationalState_name :: "ShardOperationalState \<Rightarrow> string" where
  "ShardOperationalState_name OpState_UNKNOWN = ''UNKNOWN''"
| "ShardOperationalState_name OpState_MAY_DISAPPEAR = ''MAY_DISAPPEAR''"
| "ShardOperationalState_name OpState_DRAINED = ''DRAINED''"
| "ShardOperationalState_name OpState_PROVISIONING = ''PROVISIONING''"
| "ShardOperationalState_name OpState_MIGRATING_DATA = ''MIGRATING_DATA''"
| "ShardOperationalState_name (OpState_Other n) = n"

fun MaintenanceStatus_name :: "MaintenanceStatus \<Rightarrow> string" where
  "MaintenanceStatus_name MStatus_BLOCKED_UNTIL_SAFE = ''BLOCKED_UNTIL_SAFE''"
| "MaintenanceStatus_name MStatus_REBUILDING_IS_BLOCKED = ''REBUILDING_IS_BLOCKED''"
| "MaintenanceStatus_name MStatus_COMPLETED = ''COMPLETED''"
| "MaintenanceStatus_name (MStatus_Other n) = n"

fun MaintenanceProgress_name :: "MaintenanceProgress \<Rightarrow> string" where
  "MaintenanceProgress_name MProgress_UNKNOWN = ''UNKNOWN''"
| "MaintenanceProgress_name MProgress_BLOCKED_UNTIL_SAFE = ''BLOCKED_UNTIL_SAFE''"
| "MaintenanceProgress_name MProgress_IN_PROGRESS = ''IN_PROGRESS''"
| "MaintenanceProgress_name MProgress_COMPLETED = ''COMPLETED''"
| "MaintenanceProgress_name (MProgress_Other n) = n"

fun MaintenancePriority_name :: "MaintenancePriority \<Rightarrow> string" where
  "MaintenancePriority_name MPriority_IMMINENT = ''IMMINENT''"
| "MaintenancePriority_name MPriority_HIGH = ''HIGH''"
| "MaintenancePriority_name MPriority_MEDIUM = ''MEDIUM''"
| "MaintenancePriority_name MPriority_LOW = ''LOW''"
| "MaintenancePriority_name (MPriority_Other n) = n"

section \<open>Exceptions\<close>

text \<open>
  The exceptions that the modelled functions can raise.  A function that can raise
  returns \<open>error + 'a\<close>, with \<open>Inl\<close> for the exception.
\<close>

datatype error = NodeNotFoundError | KeyError | AttributeError | ValueError

definition bind_err :: "error + 'a \<Rightarrow> ('a \<Rightarrow> error + 'b) \<Rightarrow> error + 'b" where
  "bind_err m f = (case m of Inl e \<Rightarrow> Inl e | Inr x \<Rightarrow> f x)"

text \<open>A comprehension whose body can raise: the first exception ends it.\<close>

fun map_err :: "('a \<Rightarrow> error + 'b) \<Rightarrow> 'a list \<Rightarrow> error + 'b list" where
  "map_err f [] = Inr []"
| "map_err f (x # xs) =
     (case f x of
        Inl e \<Rightarrow> Inl e
      | Inr y \<Rightarrow> (case map_err f xs of Inl e \<Rightarrow> Inl e | Inr ys \<Rightarrow> Inr (y # ys)))"

section \<open>Severity colours\<close>

text \<open>
  The colouring functions are Python functions and accept any object.  The values that
  reach them are members of the three enumerations, so an argument is one of these.
\<close>

datatype enum_value =
    ProgressV MaintenanceProgress
  | StatusV MaintenanceStatus
  | PriorityV MaintenancePriority

datatype enum_type = T_MaintenanceProgress | T_MaintenanceStatus | T_MaintenancePriority

fun type_of :: "enum_value \<Rightarrow> enum_type" where
  "type_of (ProgressV _) = T_MaintenanceProgress"
| "type_of (StatusV _) = T_MaintenanceStatus"
| "type_of (PriorityV _) = T_MaintenancePriority"

definition color_maintenance_status :: "enum_value \<Rightarrow> string" where
  "color_maintenance_status arg =
     (if arg \<in> {StatusV MStatus_BLOCKED_UNTIL_SAFE, StatusV MStatus_REBUILDING_IS_BLOCKED}
      then ''red''
      else if arg = StatusV MStatus_COMPLETED then ''green''
      else ''yellow'')"

definition color_maintenance_overall_status :: "enum_value \<Rightarrow> string" where
  "color_maintenance_overall_status arg =
     (if arg = ProgressV MProgress_COMPLETED then ''green''
      else if arg = ProgressV MProgress_BLOCKED_UNTIL_SAFE then ''red''
      else if arg = ProgressV MProgress_UNKNOWN then ''red''
      else if arg = ProgressV MProgress_IN_PROGRESS then ''yellow''
      else ''white'')"

definition color_priority :: "enum_value \<Rightarrow> string" where
  "color_priority arg =
     (if arg = PriorityV MPriority_IMMINENT then ''magenta''
      else if arg = PriorityV MPriority_HIGH then ''red''
      else if arg = PriorityV MPriority_LOW then ''blue''
      else ''white'')"

text \<open>
  \<^verbatim>\<open>_color\<close> looks the function up in a dictionary keyed by the type of the
  argument; a type that is not a key raises \<^verbatim>\<open>KeyError\<close>.
\<close>

definition color_dispatch :: "(enum_type \<times> (enum_value \<Rightarrow> string)) list" where
  "color_dispatch =
     [(T_MaintenanceProgress, color_maintenance_overall_status),
      (T_MaintenanceStatus, color_maintenance_status)]"

definition color :: "enum_value \<Rightarrow> error + string" where
  "color arg =
     (case map_of color_dispatch (type_of arg) of
        None \<Rightarrow> Inl KeyError
      | Some f \<Rightarrow> Inr (f arg))"

section \<open>State satisfaction\<close>

definition satisfy_shard_op_state ::
  "ShardOperationalState \<Rightarrow> ShardOperationalState \<Rightarrow> bool" where
  "satisfy_shard_op_state cur tgt =
     (if tgt = OpState_MAY_DISAPPEAR then
        (if cur \<in> {OpState_MAY_DISAPPEAR, OpState_DRAINED, OpState_PROVISIONING,
                    OpState_MIGRATING_DATA}
         then True else False)
      else if tgt = OpState_DRAINED then
        (if cur = OpState_DRAINED then True else False)
      else False)"

definition color_shard_op_state ::
  "ShardOperationalState \<Rightarrow> ShardOperationalState \<Rightarrow> string" where
  "color_shard_op_state cur tgt =
     (if satisfy_shard_op_state cur tgt then ''green'' else ''yellow'')"

section \<open>Strings\<close>

definition nl :: string where
  "nl = [CHR 0x0A]"

text \<open>\<^verbatim>\<open>sep.join(parts)\<close>.\<close>

fun join :: "string \<Rightarrow> string list \<Rightarrow> string" where
  "join sep [] = []"
| "join sep [x] = x"
| "join sep (x # y # ys) = x @ sep @ join sep (y # ys)"

text \<open>The decimal text of an integer, as an f-string interpolates it.\<close>

definition digit_char :: "nat \<Rightarrow> char" where
  "digit_char d = ''0123456789'' ! d"

function str_nat :: "nat \<Rightarrow> string" where
  "str_nat n = (if n < 10 then [digit_char n] else str_nat (n div 10) @ [digit_char (n mod 10)])"
  by pat_completeness auto
termination
  by (relation "measure id") auto

declare str_nat.simps [simp del]

definition str_int :: "int \<Rightarrow> string" where
  "str_int i = (if i < 0 then CHR ''-'' # str_nat (nat (- i)) else str_nat (nat i))"

definition str_bool :: "bool \<Rightarrow> string" where
  "str_bool b = (if b then ''True'' else ''False'')"

section \<open>Collaborators outside the module\<close>

text \<open>
  A point in time (\<^verbatim>\<open>datetime\<close>); only its order and its renderings matter.
\<close>

type_synonym datetime = int

text \<open>A table cell handed to \<^verbatim>\<open>tabulate\<close>: an integer, a string or \<^verbatim>\<open>None\<close>.\<close>

datatype cell = IntCell int | StrCell string | NoneCell

text \<open>
  The identifiers of the common Thrift types.  Of a \<^verbatim>\<open>NodeID\<close> and a
  \<^verbatim>\<open>ShardID\<close> the module reads \<^verbatim>\<open>node_index\<close> and
  \<^verbatim>\<open>shard_index\<close>.
\<close>

datatype NodeID = NodeID (nid_node_index: int)

datatype ShardID = ShardID (sid_node: NodeID) (sid_shard_index: int)

text \<open>
  The result of the last safety check of a maintenance.  The module hands it to the
  formatters of the \<^verbatim>\<open>safety\<close> module and reads its field \<^verbatim>\<open>impact\<close>
  (a list of enumeration members, kept by name).
\<close>

datatype CheckImpactResponse = CheckImpactResponse (cir_impact: "string list")

text \<open>The sequencing state of a node; the module reads its name only.\<close>

datatype SequencingState = SequencingState (SequencingState_name: string)

text \<open>
  Functions of libraries (\<^verbatim>\<open>termcolor\<close>, \<^verbatim>\<open>tabulate\<close>,
  \<^verbatim>\<open>humanize\<close>, \<^verbatim>\<open>textwrap\<close>), the string conversion of a
  \<^verbatim>\<open>datetime\<close> and the two formatters of the \<^verbatim>\<open>safety\<close> module are
  parameters of the model: every statement holds for whatever text they produce.
  \<open>tabulate\<close> takes the optional header row and the rows (the table format is always
  \<^verbatim>\<open>plain\<close>); \<open>shorten\<close> takes the text, the width and the placeholder.
\<close>

record externals =
  colored :: "string \<Rightarrow> string \<Rightarrow> string"
  tabulate :: "string list option \<Rightarrow> cell list list \<Rightarrow> string"
  naturaltime :: "datetime \<Rightarrow> string"
  str_datetime :: "datetime \<Rightarrow> string"
  shorten :: "string \<Rightarrow> nat \<Rightarrow> string \<Rightarrow> string"
  indent :: "string \<Rightarrow> string \<Rightarrow> string"
  impacts_to_string :: "string list \<Rightarrow> string"
  check_impact_string ::
    "CheckImpactResponse option \<Rightarrow> ShardID list \<Rightarrow> ShardOperationalState option \<Rightarrow> string"

section \<open>The cluster snapshot\<close>

text \<open>
  The per-shard maintenance progress of a shard state (\<^verbatim>\<open>ShardMaintenanceProgress\<close>):
  its status and the time of its last update.
\<close>

record ShardMaintenanceProgress =
  smp_status :: MaintenanceStatus
  smp_last_updated_at :: datetime

record ShardState =
  ss_current_operational_state :: ShardOperationalState
  ss_maintenance :: "ShardMaintenanceProgress option"

record NodeView =
  nv_node_index :: int
  nv_node_name :: string
  nv_location :: "string option"
  nv_shard_states :: "ShardState list"
  nv_sequencer_state :: "SequencingState option"

text \<open>
  The class \<^verbatim>\<open>MaintenanceView\<close> belongs to \<^verbatim>\<open>ldops\<close>; the module reads the
  attributes and calls the accessors below.  Each is a field of its own, so that nothing
  is assumed about how \<^verbatim>\<open>ldops\<close> derives one from another.
\<close>

record MaintenanceView =
  mv_group_id :: string
  mv_affected_node_indexes :: "int list"
  mv_affected_storage_node_indexes :: "int list"
  mv_affected_storage_node_ids :: "NodeID list"
  mv_affects_shards :: bool
  mv_affects_sequencers :: bool
  mv_shard_target_state :: "ShardOperationalState option"
  mv_sequencer_target_state :: "SequencingState option"
  mv_num_shards_done :: int
  mv_num_shards_total :: int
  mv_num_sequencers_done :: int
  mv_num_sequencers_total :: int
  mv_are_all_shards_done :: bool
  mv_are_all_sequencers_done :: bool
  mv_overall_status :: MaintenanceProgress
  mv_priority :: "MaintenancePriority option"
  mv_user :: string
  mv_reason :: "string option"
  mv_extras :: "(string \<times> string) list"
  mv_created_on :: "datetime option"
  mv_expires_on :: "datetime option"
  mv_skip_safety_checks :: bool
  mv_skip_capacity_checks :: bool
  mv_allow_passive_drains :: bool
  mv_force_restore_rebuilding :: bool
  mv_is_internal :: bool
  mv_is_blocked :: bool
  mv_is_completed :: bool
  mv_is_in_progress :: bool
  mv_last_check_impact_result :: "CheckImpactResponse option"
  mv_sequencer_nodes :: "NodeID list"
  mv_get_shards_by_node_index :: "int \<Rightarrow> ShardID list"
  mv_get_shard_state :: "ShardID \<Rightarrow> ShardState option"
  mv_get_shard_maintenance_status :: "ShardID \<Rightarrow> MaintenanceStatus"
  mv_get_shard_last_updated_at :: "ShardID \<Rightarrow> datetime option"
  mv_get_sequencer_maintenance_status :: "NodeID \<Rightarrow> MaintenanceStatus"
  mv_get_sequencer_last_updated_at :: "NodeID \<Rightarrow> datetime option"

record ClusterView =
  cv_nodes :: "NodeView list"
  cv_maintenance_views :: "MaintenanceView list"

text \<open>
  Modelled from the spec: the lookups \<^verbatim>\<open>get_node_view\<close> and
  \<^verbatim>\<open>get_node_index\<close> of the class \<^verbatim>\<open>ClusterView\<close> (in \<^verbatim>\<open>ldops\<close>).
  The snapshot provides node lookup by index or name, which fails with
  \<^verbatim>\<open>NodeNotFound\<close> if the node is absent.
\<close>

definition get_node_view :: "ClusterView \<Rightarrow> int \<Rightarrow> error + NodeView" where
  "get_node_view cv node_index =
     (case find (\<lambda>nv. nv_node_index nv = node_index) (cv_nodes cv) of
        None \<Rightarrow> Inl NodeNotFoundError
      | Some nv \<Rightarrow> Inr nv)"

definition get_node_index :: "ClusterView \<Rightarrow> string \<Rightarrow> error + int" where
  "get_node_index cv node_name =
     (case find (\<lambda>nv. nv_node_name nv = node_name) (cv_nodes cv) of
        None \<Rightarrow> Inl NodeNotFoundError
      | Some nv \<Rightarrow> Inr (nv_node_index nv))"

definition get_all_maintenance_views :: "ClusterView \<Rightarrow> MaintenanceView list" where
  "get_all_maintenance_views cv = cv_maintenance_views cv"

section \<open>Filtering\<close>

text \<open>
  \<^verbatim>\<open>_filter_maintenance_views\<close> is an ordinary function (it has no
  \<^verbatim>\<open>yield\<close>): its body runs at the call and returns a chain of generator
  expressions, which the callers consume with \<^verbatim>\<open>list\<close>.  Hence the names of
  \<^verbatim>\<open>node_names\<close> are resolved at the call, and a name that does not resolve
  raises there, whatever the records are.

  The conditions of the generator expressions are evaluated when the chain is consumed,
  after the body has run.  The two stages for \<^verbatim>\<open>node_indexes\<close> and
  \<^verbatim>\<open>node_names\<close> both read the local variable \<^verbatim>\<open>node_indexes_set\<close>,
  which the second branch assigns again; both stages therefore test against the value the
  variable has at the end of the body.  Every other stage reads a variable that is
  assigned once.
\<close>

definition resolve_node_names :: "ClusterView \<Rightarrow> string list option \<Rightarrow> error + int list option" where
  "resolve_node_names cv node_names =
     (case node_names of
        None \<Rightarrow> Inr None
      | Some names \<Rightarrow>
          (case map_err (get_node_index cv) names of
             Inl e \<Rightarrow> Inl e
           | Inr idxs \<Rightarrow> Inr (Some idxs)))"

definition filter_maintenance_views ::
  "MaintenanceView list \<Rightarrow> ClusterView \<Rightarrow> string list option \<Rightarrow> string list option \<Rightarrow>
   int list option \<Rightarrow> string list option \<Rightarrow> bool option \<Rightarrow> bool option \<Rightarrow> bool option \<Rightarrow>
   MaintenancePriority option \<Rightarrow> bool option \<Rightarrow> error + MaintenanceView list" where
  "filter_maintenance_views maintenance_views cluster_view ids users node_indexes node_names
       blocked completed in_progress priority include_internal_maintenances =
     (let cv = cluster_view;
          mvs = maintenance_views;
          mvs = (if include_internal_maintenances \<noteq> None \<and> include_internal_maintenances = Some False
                 then filter (\<lambda>mv. \<not> mv_is_internal mv) mvs else mvs);
          mvs = (case ids of None \<Rightarrow> mvs
                 | Some ids' \<Rightarrow> filter (\<lambda>mv. mv_group_id mv \<in> set ids') mvs);
          mvs = (case users of None \<Rightarrow> mvs
                 | Some users' \<Rightarrow> filter (\<lambda>mv. mv_user mv \<in> set users') mvs)
      in case resolve_node_names cv node_names of
           Inl e \<Rightarrow> Inl e
         | Inr resolved \<Rightarrow>
            (let node_indexes_set =
                   (case resolved of
                      Some idxs \<Rightarrow> set idxs
                    | None \<Rightarrow> (case node_indexes of Some idxs \<Rightarrow> set idxs | None \<Rightarrow> {}));
                 mvs = (case node_indexes of None \<Rightarrow> mvs
                        | Some _ \<Rightarrow>
                            filter (\<lambda>mv. set (mv_affected_node_indexes mv) \<inter> node_indexes_set \<noteq> {})
                              mvs);
                 mvs = (case node_names of None \<Rightarrow> mvs
                        | Some _ \<Rightarrow>
                            filter (\<lambda>mv. set (mv_affected_node_indexes mv) \<inter> node_indexes_set \<noteq> {})
                              mvs);
                 mvs = (case priority of None \<Rightarrow> mvs
                        | Some p \<Rightarrow> filter (\<lambda>mv. mv_priority mv = Some p) mvs);
                 mvs = (case blocked of None \<Rightarrow> mvs
                        | Some b \<Rightarrow> filter (\<lambda>mv. mv_is_blocked mv = b) mvs);
                 mvs = (case completed of None \<Rightarrow> mvs
                        | Some b \<Rightarrow> filter (\<lambda>mv. mv_is_completed mv = b) mvs);
                 mvs = (case in_progress of None \<Rightarrow> mvs
                        | Some b \<Rightarrow> filter (\<lambda>mv. mv_is_in_progress mv = b) mvs)
             in Inr mvs))"

section \<open>Compact rendering\<close>

text \<open>
  The blocks of \<^verbatim>\<open>mv_to_row\<close> that compute the cells
  \<^verbatim>\<open>shard_progress\<close> and \<^verbatim>\<open>sequencer_progress\<close>.  Reading
  \<^verbatim>\<open>.name\<close> of a target state that is \<^verbatim>\<open>None\<close> raises
  \<^verbatim>\<open>AttributeError\<close>.
\<close>

definition shard_progress :: "externals \<Rightarrow> MaintenanceView \<Rightarrow> error + string" where
  "shard_progress ext mv =
     (if mv_affects_shards mv then
        (let color = (if mv_is_blocked mv then ''red''
                      else if \<not> mv_are_all_shards_done mv then ''yellow''
                      else ''green'')
         in case mv_shard_target_state mv of
              None \<Rightarrow> Inl AttributeError
            | Some tgt \<Rightarrow>
                Inr (colored ext
                       (ShardOperationalState_name tgt @ ''('' @ str_int (mv_num_shards_done mv)
                          @ ''/'' @ str_int (mv_num_shards_total mv) @ '')'')
                       color))
      else Inr ''-'')"

definition sequencer_progress :: "externals \<Rightarrow> MaintenanceView \<Rightarrow> error + string" where
  "sequencer_progress ext mv =
     (if mv_affects_sequencers mv then
        (let color = (if mv_are_all_sequencers_done mv then ''green'' else ''yellow'')
         in case mv_sequencer_target_state mv of
              None \<Rightarrow> Inl AttributeError
            | Some tgt \<Rightarrow>
                Inr (colored ext
                       (SequencingState_name tgt @ ''('' @ str_int (mv_num_sequencers_done mv)
                          @ ''/'' @ str_int (mv_num_sequencers_total mv) @ '')'')
                       color))
      else Inr ''-'')"

definition mv_to_row :: "externals \<Rightarrow> MaintenanceView \<Rightarrow> ClusterView \<Rightarrow> error + string list" where
  "mv_to_row ext mv cv =
     (let mid = mv_group_id mv;
          affected = shorten ext
                       (join '','' (map (\<lambda>ni. ''N'' @ str_int ni) (mv_affected_node_indexes mv)))
                       30 ''...''
      in bind_err (color (ProgressV (mv_overall_status mv))) (\<lambda>status_color.
         let status = colored ext (MaintenanceProgress_name (mv_overall_status mv)) status_color
         in bind_err (shard_progress ext mv) (\<lambda>shard_progress'.
            bind_err (sequencer_progress ext mv) (\<lambda>sequencer_progress'.
            let priority = (case mv_priority mv of None \<Rightarrow> MPriority_MEDIUM | Some p \<Rightarrow> p);
                priority_str = colored ext (MaintenancePriority_name priority)
                                 (color_priority (PriorityV priority));
                created_by = mv_user mv;
                created_reason = (case mv_reason mv of
                                    None \<Rightarrow> ''-''
                                  | Some r \<Rightarrow> if r \<noteq> [] then shorten ext r 40 ''...'' else ''-'');
                created_on = (case mv_created_on mv of
                                None \<Rightarrow> ''-'' | Some t \<Rightarrow> str_datetime ext t);
                expires_on = (case mv_expires_on mv of
                                None \<Rightarrow> ''-'' | Some t \<Rightarrow> naturaltime ext t)
            in Inr [mid, affected, status, shard_progress', sequencer_progress', priority_str,
                    created_by, created_reason, created_on, expires_on]))))"

definition render_compact :: "externals \<Rightarrow> MaintenanceView list \<Rightarrow> ClusterView \<Rightarrow> error + string" where
  "render_compact ext maintenance_views cluster_view =
     bind_err (map_err (\<lambda>mv. mv_to_row ext mv cluster_view) maintenance_views) (\<lambda>rows.
       Inr (tabulate ext
              (Some [''MNT. ID'', ''AFFECTED'', ''STATUS'', ''SHARDS'', ''SEQUENCERS'', ''PRIORITY'',
                     ''CREATED BY'', ''REASON'', ''CREATED AT'', ''EXPIRES IN''])
              (map (map StrCell) rows)))"

definition get_shard_operational_state :: "MaintenanceView \<Rightarrow> ShardID \<Rightarrow> ShardOperationalState" where
  "get_shard_operational_state mv shard =
     (case mv_get_shard_state mv shard of
        Some shard_state \<Rightarrow> ss_current_operational_state shard_state
      | None \<Rightarrow> OpState_UNKNOWN)"

section \<open>Expanded rendering\<close>

definition overview :: "externals \<Rightarrow> MaintenanceView \<Rightarrow> ClusterView \<Rightarrow> error + string" where
  "overview ext mv cv =
     (let priority = (case mv_priority mv of None \<Rightarrow> MPriority_MEDIUM | Some p \<Rightarrow> p)
      in bind_err (color (ProgressV (mv_overall_status mv))) (\<lambda>status_color.
         let tbl =
               [[''Maintenance ID'', mv_group_id mv],
                [''Priority'', colored ext (MaintenancePriority_name priority)
                                 (color_priority (PriorityV priority))],
                [''Affected '', str_int (mv_num_shards_total mv) @ '' shards on ''
                                 @ str_nat (length (mv_affected_storage_node_ids mv)) @ '' nodes, ''
                                 @ str_int (mv_num_sequencers_total mv) @ '' sequencers''],
                [''Status'', colored ext (MaintenanceProgress_name (mv_overall_status mv))
                               status_color]]
               @ (case mv_last_check_impact_result mv of
                    Some r \<Rightarrow>
                      if mv_overall_status mv \<in> set [MProgress_BLOCKED_UNTIL_SAFE, MProgress_UNKNOWN]
                      then [[''Impact Result'',
                             colored ext (impacts_to_string ext (cir_impact r)) ''red'']]
                      else []
                  | None \<Rightarrow> [])
               @ [[''Created By'', mv_user mv],
                  [''Reason'', (case mv_reason mv of
                                  None \<Rightarrow> ''-'' | Some r \<Rightarrow> if r \<noteq> [] then r else ''-'')],
                  [''Extras'', (if mv_extras mv \<noteq> []
                                then join nl (map (\<lambda>(k, v). k @ ''='' @ v) (mv_extras mv))
                                else ''-'')],
                  [''Created On'', (case mv_created_on mv of
                                      None \<Rightarrow> ''-''
                                    | Some t \<Rightarrow> str_datetime ext t @ '' ('' @ naturaltime ext t @ '')'')],
                  [''Expires On'', (case mv_expires_on mv of
                                      None \<Rightarrow> ''-''
                                    | Some t \<Rightarrow> str_datetime ext t @ '' ('' @ naturaltime ext t @ '')'')],
                  [''Skip Safety Checks'',
                     (if mv_skip_safety_checks mv
                      then colored ext (str_bool (mv_skip_safety_checks mv)) ''red''
                      else str_bool (mv_skip_safety_checks mv))],
                  [''Skip Capacity Checks'',
                     (if mv_skip_capacity_checks mv
                      then colored ext (str_bool (mv_skip_capacity_checks mv)) ''red''
                      else str_bool (mv_skip_capacity_checks mv))],
                  [''Allow Passive Drains'', str_bool (mv_allow_passive_drains mv)],
                  [''RESTORE rebuilding enforced'', str_bool (mv_force_restore_rebuilding mv)]];
             tbl = map (\<lambda>row. [StrCell (row ! 0 @ '':''), StrCell (row ! 1)]) tbl
         in Inr (tabulate ext None tbl)))"

subsection \<open>The aggregated shard table\<close>

text \<open>
  \<^verbatim>\<open>Counter(xs).items()\<close>: every distinct element with the number of its
  occurrences, in the order of first occurrence.
\<close>

fun Counter_add :: "'a \<Rightarrow> ('a \<times> nat) list \<Rightarrow> ('a \<times> nat) list" where
  "Counter_add x [] = [(x, 1)]"
| "Counter_add x ((y, n) # rest) =
     (if x = y then (y, Suc n) # rest else (y, n) # Counter_add x rest)"

definition Counter_items :: "'a list \<Rightarrow> ('a \<times> nat) list" where
  "Counter_items xs = fold Counter_add xs []"

text \<open>\<^verbatim>\<open>min\<close> of a generator; an empty one raises \<^verbatim>\<open>ValueError\<close>.\<close>

definition py_min :: "datetime list \<Rightarrow> error + datetime" where
  "py_min ts = (case ts of [] \<Rightarrow> Inl ValueError | t # rest \<Rightarrow> Inr (fold min rest t))"

text \<open>
  The three blocks of the loop body of \<^verbatim>\<open>aggregated\<close> that compute
  \<^verbatim>\<open>current_state\<close>, \<^verbatim>\<open>maintenance_status\<close> and
  \<^verbatim>\<open>last_updated_at\<close> for the node \<open>ni\<close>.
\<close>

definition current_state_chunks ::
  "externals \<Rightarrow> MaintenanceView \<Rightarrow> int \<Rightarrow> ShardOperationalState \<Rightarrow> string list" where
  "current_state_chunks ext mv ni tgt =
     map (\<lambda>(cur_op_state, num).
            colored ext (ShardOperationalState_name cur_op_state @ ''('' @ str_nat num @ '')'')
              (color_shard_op_state cur_op_state tgt))
       (sort_key (\<lambda>x. ShardOperationalState_name (fst x))
          (Counter_items (map (get_shard_operational_state mv) (mv_get_shards_by_node_index mv ni))))"

definition maintenance_status_chunks ::
  "externals \<Rightarrow> MaintenanceView \<Rightarrow> int \<Rightarrow> error + string list" where
  "maintenance_status_chunks ext mv ni =
     (let mnt_statuses = map (mv_get_shard_maintenance_status mv) (mv_get_shards_by_node_index mv ni)
      in map_err (\<lambda>(mnt_status, num).
                    bind_err (color (StatusV mnt_status)) (\<lambda>c.
                      Inr (colored ext (MaintenanceStatus_name mnt_status @ ''('' @ str_nat num @ '')'') c)))
           (sort_key (\<lambda>x. MaintenanceStatus_name (fst x)) (Counter_items mnt_statuses)))"

definition last_updated_at :: "externals \<Rightarrow> NodeView \<Rightarrow> error + string" where
  "last_updated_at ext nv =
     (if nv_shard_states nv \<noteq> [] then
        bind_err
          (py_min (List.map_filter
                     (\<lambda>ss. case ss_maintenance ss of
                             None \<Rightarrow> None
                           | Some m \<Rightarrow> Some (smp_last_updated_at m))
                     (nv_shard_states nv)))
          (\<lambda>last_updated_at_time.
             Inr (str_datetime ext last_updated_at_time @ '' (''
                    @ naturaltime ext last_updated_at_time @ '')''))
      else Inr ''NEVER'')"

definition aggregated_row ::
  "externals \<Rightarrow> MaintenanceView \<Rightarrow> ClusterView \<Rightarrow> int \<Rightarrow> error + cell list" where
  "aggregated_row ext mv cv ni =
     bind_err (get_node_view cv ni) (\<lambda>nv.
       case mv_shard_target_state mv of
         None \<Rightarrow> Inl AttributeError
       | Some tgt \<Rightarrow>
           (let target_state = ShardOperationalState_name tgt @ ''(''
                                 @ str_nat (length (mv_get_shards_by_node_index mv ni)) @ '')'';
                current_state = join '','' (current_state_chunks ext mv ni tgt)
            in bind_err (maintenance_status_chunks ext mv ni) (\<lambda>chunks.
               let maintenance_status = join '','' chunks
               in bind_err (last_updated_at ext nv) (\<lambda>last_updated_at'.
                  Inr [IntCell ni,
                       StrCell (nv_node_name nv),
                       (case nv_location nv of None \<Rightarrow> NoneCell | Some l \<Rightarrow> StrCell l),
                       StrCell target_state,
                       StrCell current_state,
                       StrCell maintenance_status,
                       StrCell last_updated_at']))))"

definition aggregated :: "externals \<Rightarrow> MaintenanceView \<Rightarrow> ClusterView \<Rightarrow> error + string" where
  "aggregated ext mv cv =
     bind_err (map_err (aggregated_row ext mv cv) (mv_affected_storage_node_indexes mv)) (\<lambda>tbl.
       Inr (tabulate ext
              (Some [''NODE INDEX'', ''NODE NAME'', ''LOCATION'', ''TARGET STATE'', ''CURRENT STATE'',
                     ''MAINTENANCE STATUS'', ''LAST UPDATED''])
              tbl))"

subsection \<open>The per-shard tables\<close>

text \<open>The loop body of \<^verbatim>\<open>shards_table\<close>: the row of one shard.\<close>

definition shards_table_row :: "externals \<Rightarrow> MaintenanceView \<Rightarrow> ShardID \<Rightarrow> error + cell list" where
  "shards_table_row ext mv shard =
     (let target_state = mv_shard_target_state mv;
          cur_op_state = get_shard_operational_state mv shard
      in case target_state of
           None \<Rightarrow> Inl AttributeError
         | Some tgt \<Rightarrow>
            (let current_state = colored ext (ShardOperationalState_name cur_op_state)
                                   (color_shard_op_state cur_op_state tgt);
                 mnt_status = mv_get_shard_maintenance_status mv shard
             in bind_err (color (StatusV mnt_status)) (\<lambda>c.
                let maintenance_status = colored ext (MaintenanceStatus_name mnt_status) c;
                    last_updated = (case mv_get_shard_last_updated_at mv shard of
                                      Some t \<Rightarrow> str_datetime ext t @ '' ('' @ naturaltime ext t @ '')''
                                    | None \<Rightarrow> ''-'')
                in Inr [IntCell (sid_shard_index shard),
                        StrCell current_state,
                        StrCell (ShardOperationalState_name tgt),
                        StrCell maintenance_status,
                        StrCell last_updated])))"

definition shards_table :: "externals \<Rightarrow> MaintenanceView \<Rightarrow> ClusterView \<Rightarrow> int \<Rightarrow> error + string" where
  "shards_table ext mv cv ni =
     bind_err (map_err (shards_table_row ext mv) (mv_get_shards_by_node_index mv ni)) (\<lambda>tbl.
       Inr (tabulate ext
              (Some [''SHARD INDEX'', ''CURRENT STATE'', ''TARGET STATE'', ''MAINTENANCE STATUS'',
                     ''LAST UPDATED''])
              tbl))"

definition one_node :: "externals \<Rightarrow> MaintenanceView \<Rightarrow> ClusterView \<Rightarrow> int \<Rightarrow> error + string" where
  "one_node ext mv cv ni =
     bind_err (get_node_view cv ni) (\<lambda>nv.
       bind_err (shards_table ext mv cv ni) (\<lambda>tbl.
         Inr (''N'' @ str_int (nv_node_index nv) @ '' ('' @ nv_node_name nv @ ''):'' @ nl
                @ indent ext tbl ''  '')))"

definition expanded :: "externals \<Rightarrow> MaintenanceView \<Rightarrow> ClusterView \<Rightarrow> error + string" where
  "expanded ext mv cv =
     bind_err (map_err (one_node ext mv cv) (mv_affected_node_indexes mv)) (\<lambda>parts.
       Inr (join (nl @ nl) parts))"

definition shards ::
  "externals \<Rightarrow> MaintenanceView \<Rightarrow> ClusterView \<Rightarrow> bool \<Rightarrow> error + string option" where
  "shards ext mv cv expand_shards =
     (if \<not> mv_affects_shards mv then Inr None
      else bind_err ((if expand_shards then expanded else aggregated) ext mv cv) (\<lambda>body.
             Inr (Some (''Shard Maintenances:'' @ nl @ indent ext body ''  ''))))"

subsection \<open>Sequencers, safety impact and the assembly of a record\<close>

text \<open>
  The loop body of \<^verbatim>\<open>sequencers\<close>.  The field \<open>nv_sequencer_state\<close> stands
  for \<^verbatim>\<open>nv.sequencer_state.state\<close>; when the node has no sequencer state, reading
  it raises \<^verbatim>\<open>AttributeError\<close>.
\<close>

definition sequencers_row ::
  "externals \<Rightarrow> MaintenanceView \<Rightarrow> ClusterView \<Rightarrow> NodeID \<Rightarrow> error + cell list" where
  "sequencers_row ext mv cv n =
     bind_err (get_node_view cv (nid_node_index n)) (\<lambda>nv.
       case mv_sequencer_target_state mv of
         None \<Rightarrow> Inl AttributeError
       | Some tgt \<Rightarrow>
          (let target_state = SequencingState_name tgt;
               mnt_status = mv_get_sequencer_maintenance_status mv n
           in case nv_sequencer_state nv of
                None \<Rightarrow> Inl AttributeError
              | Some st \<Rightarrow>
                  bind_err (color (StatusV mnt_status)) (\<lambda>c.
                    let current_state = colored ext (SequencingState_name st) c;
                        maintenance_status = colored ext (MaintenanceStatus_name mnt_status) c;
                        last_updated = (case mv_get_sequencer_last_updated_at mv n of
                                          Some t \<Rightarrow> str_datetime ext t @ '' ('' @ naturaltime ext t @ '')''
                                        | None \<Rightarrow> ''-'')
                    in Inr [IntCell (nv_node_index nv),
                            StrCell (nv_node_name nv),
                            (case nv_location nv of None \<Rightarrow> NoneCell | Some l \<Rightarrow> StrCell l),
                            StrCell target_state,
                            StrCell current_state,
                            StrCell maintenance_status,
                            StrCell last_updated])))"

definition sequencers :: "externals \<Rightarrow> MaintenanceView \<Rightarrow> ClusterView \<Rightarrow> error + string option" where
  "sequencers ext mv cv =
     (if \<not> mv_affects_sequencers mv then Inr None
      else bind_err (map_err (sequencers_row ext mv cv) (mv_sequencer_nodes mv)) (\<lambda>tbl.
             Inr (Some (''Sequencer Maintenances:'' @ nl
                          @ indent ext
                              (tabulate ext
                                 (Some [''NODE INDEX'', ''NODE NAME'', ''LOCATION'', ''TARGET STATE'',
                                        ''CURRENT STATE'', ''MAINTENANCE STATUS'', ''LAST UPDATED''])
                                 tbl)
                              ''  ''))))"

definition impact :: "externals \<Rightarrow> MaintenanceView \<Rightarrow> bool \<Rightarrow> string" where
  "impact ext mv show_safety_check_results =
     (if mv_overall_status mv = MProgress_BLOCKED_UNTIL_SAFE \<and> show_safety_check_results then
        (let response = mv_last_check_impact_result mv;
             shards' = concat (map (mv_get_shards_by_node_index mv) (mv_affected_node_indexes mv));
             impact_string = check_impact_string ext response shards' (mv_shard_target_state mv)
         in ''Safety Check Impact:'' @ nl @ nl @ impact_string)
      else [])"

text \<open>
  \<^verbatim>\<open>filter(None, parts)\<close> keeps the parts that are neither \<^verbatim>\<open>None\<close>
  nor the empty string.
\<close>

definition filter_None :: "string option list \<Rightarrow> string list" where
  "filter_None parts =
     List.map_filter (\<lambda>part. case part of
                               None \<Rightarrow> None
                             | Some text \<Rightarrow> if text = [] then None else Some text)
       parts"

text \<open>The function \<^verbatim>\<open>one\<close> of \<^verbatim>\<open>_render_expanded\<close>.\<close>

definition expanded_one ::
  "externals \<Rightarrow> bool \<Rightarrow> MaintenanceView \<Rightarrow> ClusterView \<Rightarrow> bool \<Rightarrow> error + string" where
  "expanded_one ext show_safety_check_results mv cv expand_shards =
     bind_err (overview ext mv cv) (\<lambda>overview'.
       bind_err (shards ext mv cv expand_shards) (\<lambda>shards'.
         bind_err (sequencers ext mv cv) (\<lambda>sequencers'.
           Inr (join (nl @ nl)
                  (filter_None
                     [Some overview', shards', sequencers',
                      Some (impact ext mv show_safety_check_results)])))))"

definition render_expanded ::
  "externals \<Rightarrow> MaintenanceView list \<Rightarrow> ClusterView \<Rightarrow> bool \<Rightarrow> bool \<Rightarrow> error + string" where
  "render_expanded ext maintenance_views cluster_view expand_shards show_safety_check_results =
     bind_err
       (map_err (\<lambda>mv. expanded_one ext show_safety_check_results mv cluster_view expand_shards)
          maintenance_views)
       (\<lambda>parts. Inr (join (nl @ nl @ ''---'' @ nl) parts))"

definition render_expanded_with_shards ::
  "externals \<Rightarrow> MaintenanceView list \<Rightarrow> ClusterView \<Rightarrow> error + string" where
  "render_expanded_with_shards ext maintenance_views cluster_view =
     render_expanded ext maintenance_views cluster_view True False"

definition render_expanded_with_safety_checks ::
  "externals \<Rightarrow> MaintenanceView list \<Rightarrow> ClusterView \<Rightarrow> error + string" where
  "render_expanded_with_safety_checks ext maintenance_views cluster_view =
     render_expanded ext maintenance_views cluster_view False True"

section \<open>Selecting a renderer\<close>

datatype RenderingMode = COMPACT | EXPANDED | EXPANDED_WITH_SHARDS | EXPANDED_WITH_SAFETY_CHECKS

text \<open>
  \<^verbatim>\<open>_render\<close> looks the renderer up in a dictionary keyed by the mode.  The
  entry for \<^verbatim>\<open>EXPANDED\<close> is \<^verbatim>\<open>_render_expanded\<close> called with two
  arguments, that is with both flags at their default \<^verbatim>\<open>False\<close>.
\<close>

definition render ::
  "externals \<Rightarrow> MaintenanceView list \<Rightarrow> ClusterView \<Rightarrow> RenderingMode \<Rightarrow> error + string" where
  "render ext maintenance_views cluster_view mode =
     (case map_of
             [(COMPACT, render_compact),
              (EXPANDED, \<lambda>ext mvs cv. render_expanded ext mvs cv False False),
              (EXPANDED_WITH_SHARDS, render_expanded_with_shards),
              (EXPANDED_WITH_SAFETY_CHECKS, render_expanded_with_safety_checks)]
             mode of
        None \<Rightarrow> Inl KeyError
      | Some f \<Rightarrow> f ext maintenance_views cluster_view)"

text \<open>
  \<^verbatim>\<open>MaintenanceCommand._select_and_render\<close>, after the cluster view \<open>cv\<close>
  has been fetched.  The rendering mode is optional in the signature; \<^verbatim>\<open>None\<close>
  is not a key of the dictionary of \<^verbatim>\<open>_render\<close>.
\<close>

definition select_and_render ::
  "externals \<Rightarrow> ClusterView \<Rightarrow> string list option \<Rightarrow> string list option \<Rightarrow> int list option \<Rightarrow>
   string list option \<Rightarrow> bool option \<Rightarrow> bool option \<Rightarrow> bool option \<Rightarrow>
   MaintenancePriority option \<Rightarrow> RenderingMode option \<Rightarrow> error + string" where
  "select_and_render ext cv ids users node_indexes node_names blocked completed in_progress
       priority rendering_mode =
     bind_err
       (filter_maintenance_views (get_all_maintenance_views cv) cv ids users node_indexes
          node_names blocked completed in_progress priority None)
       (\<lambda>mvs.
          if length mvs = 0
          then Inr (colored ext ''No maintenances matching given criteria'' ''red'')
          else (case rendering_mode of
                  None \<Rightarrow> Inl KeyError
                | Some mode \<Rightarrow> render ext mvs cv mode))"

section \<open>A concrete snapshot\<close>

text \<open>
  Simple stand-ins for the library functions, and a cluster of one node with two
  maintenances, used to evaluate the model on concrete inputs.
\<close>

definition cell_text :: "cell \<Rightarrow> string" where
  "cell_text c = (case c of IntCell i \<Rightarrow> str_int i | StrCell s \<Rightarrow> s | NoneCell \<Rightarrow> [])"

definition example_ext :: externals where
  "example_ext =
     \<lparr> colored = (\<lambda>text c. c @ '':'' @ text),
       tabulate = (\<lambda>headers rows.
                     join ''|'' (map (\<lambda>row. join '' '' (map cell_text row))
                                  ((case headers of None \<Rightarrow> [] | Some h \<Rightarrow> [map StrCell h]) @ rows))),
       naturaltime = (\<lambda>t. ''t'' @ str_int t),
       str_datetime = str_int,
       shorten = (\<lambda>text width placeholder. take width text),
       indent = (\<lambda>text prefix. prefix @ text),
       impacts_to_string = join '','',
       check_impact_string = (\<lambda>response shards' tgt. ''impact'') \<rparr>"

definition example_shard :: ShardID where
  "example_shard = ShardID (NodeID 1) 0"

definition example_shard_state :: ShardState where
  "example_shard_state =
     \<lparr> ss_current_operational_state = OpState_MIGRATING_DATA,
       ss_maintenance = Some \<lparr> smp_status = MStatus_BLOCKED_UNTIL_SAFE,
                                smp_last_updated_at = 5 \<rparr> \<rparr>"

definition fresh_shard_state :: ShardState where
  "fresh_shard_state =
     \<lparr> ss_current_operational_state = OpState_Other ''ENABLED'',
       ss_maintenance = None \<rparr>"

definition example_mv :: MaintenanceView where
  "example_mv =
     \<lparr> mv_group_id = ''m1'',
       mv_affected_node_indexes = [1],
       mv_affected_storage_node_indexes = [1],
       mv_affected_storage_node_ids = [NodeID 1],
       mv_affects_shards = True,
       mv_affects_sequencers = True,
       mv_shard_target_state = Some OpState_DRAINED,
       mv_sequencer_target_state = Some (SequencingState ''DISABLED''),
       mv_num_shards_done = 0,
       mv_num_shards_total = 1,
       mv_num_sequencers_done = 0,
       mv_num_sequencers_total = 1,
       mv_are_all_shards_done = False,
       mv_are_all_sequencers_done = False,
       mv_overall_status = MProgress_BLOCKED_UNTIL_SAFE,
       mv_priority = None,
       mv_user = ''alice'',
       mv_reason = Some ''swap'',
       mv_extras = [],
       mv_created_on = None,
       mv_expires_on = None,
       mv_skip_safety_checks = False,
       mv_skip_capacity_checks = False,
       mv_allow_passive_drains = False,
       mv_force_restore_rebuilding = False,
       mv_is_internal = False,
       mv_is_blocked = True,
       mv_is_completed = False,
       mv_is_in_progress = True,
       mv_last_check_impact_result = Some (CheckImpactResponse [''REBUILDING_STALL'']),
       mv_sequencer_nodes = [NodeID 1],
       mv_get_shards_by_node_index = (\<lambda>ni. if ni = 1 then [example_shard] else []),
       mv_get_shard_state =
         (\<lambda>shard. if shard = example_shard then Some example_shard_state else None),
       mv_get_shard_maintenance_status = (\<lambda>shard. MStatus_BLOCKED_UNTIL_SAFE),
       mv_get_shard_last_updated_at = (\<lambda>shard. if shard = example_shard then Some 5 else None),
       mv_get_sequencer_maintenance_status = (\<lambda>n. MStatus_Other ''STARTED''),
       mv_get_sequencer_last_updated_at = (\<lambda>n. None) \<rparr>"

definition internal_mv :: MaintenanceView where
  "internal_mv = example_mv \<lparr> mv_group_id := ''m2'', mv_user := ''_internal_'',
                               mv_is_internal := True \<rparr>"

text \<open>
  In \<open>example_cv\<close> the shard of node 1 carries a maintenance progress.  In
  \<open>fresh_cv\<close> the maintenance \<open>fresh_mv\<close> has just been applied and the shard
  does not carry a maintenance progress yet.
\<close>

definition fresh_mv :: MaintenanceView where
  "fresh_mv =
     example_mv \<lparr> mv_overall_status := MProgress_IN_PROGRESS,
                  mv_is_blocked := False,
                  mv_last_check_impact_result := None,
                  mv_get_shard_state :=
                    (\<lambda>shard. if shard = example_shard then Some fresh_shard_state else None),
                  mv_get_shard_maintenance_status := (\<lambda>shard. MStatus_Other ''NOT_STARTED''),
                  mv_get_shard_last_updated_at := (\<lambda>shard. None) \<rparr>"

definition example_cv :: ClusterView where
  "example_cv =
     \<lparr> cv_nodes =
         [\<lparr> nv_node_index = 1, nv_node_name = ''node1'', nv_location = Some ''rg1'',
            nv_shard_states = [example_shard_state],
            nv_sequencer_state = Some (SequencingState ''ENABLED'') \<rparr>],
       cv_maintenance_views = [example_mv, internal_mv] \<rparr>"

definition fresh_cv :: ClusterView where
  "fresh_cv =
     \<lparr> cv_nodes =
         [\<lparr> nv_node_index = 1, nv_node_name = ''node1'', nv_location = Some ''rg1'',
            nv_shard_states = [fresh_shard_state],
            nv_sequencer_state = Some (SequencingState ''ENABLED'') \<rparr>],
       cv_maintenance_views = [fresh_mv] \<rparr>"

section \<open>Auxiliary facts\<close>

lemma bind_err_Inl: "bind_err (Inl e) f = Inl e"
  by (simp add: bind_err_def)

lemma bind_err_Inr: "bind_err (Inr x) f = f x"
  by (simp add: bind_err_def)

lemma color_ProgressV: "color (ProgressV p) = Inr (color_maintenance_overall_status (ProgressV p))"
  by (simp add: color_def color_dispatch_def)

lemma color_StatusV: "color (StatusV s) = Inr (color_maintenance_status (StatusV s))"
  by (simp add: color_def color_dispatch_def)

lemma get_node_index_error: "get_node_index cv n = Inl e \<Longrightarrow> e = NodeNotFoundError"
  by (auto simp: get_node_index_def split: option.splits)

lemma map_err_Inl:
  "x \<in> set xs \<Longrightarrow> f x = Inl e \<Longrightarrow> \<exists>e'. map_err f xs = Inl e'"
  by (induction xs) (auto split: sum.splits)

lemma map_err_Inl_elem:
  "map_err f xs = Inl e \<Longrightarrow> \<exists>x\<in>set xs. f x = Inl e"
  by (induction xs) (auto split: sum.splits)

lemma map_err_Inr_length: "map_err f xs = Inr ys \<Longrightarrow> length ys = length xs"
  by (induction xs arbitrary: ys) (auto split: sum.splits)

lemma map_err_total: "(\<And>x. x \<in> set xs \<Longrightarrow> f x = Inr (g x)) \<Longrightarrow> map_err f xs = Inr (map g xs)"
  by (induction xs) auto

lemma str_nat_digit: "n < 10 \<Longrightarrow> str_nat n = [digit_char n]"
  by (simp add: str_nat.simps)

text \<open>Every stage of the filter is one \<open>filter\<close>, and the chain is one \<open>filter\<close>.\<close>

lemma stage_filter:
  "(case c of None \<Rightarrow> xs | Some v \<Rightarrow> filter (P v) xs)
     = filter (\<lambda>x. case c of None \<Rightarrow> True | Some v \<Rightarrow> P v x) xs"
  by (cases c) simp_all

lemma filter_maintenance_views_alt:
  "filter_maintenance_views mvs cv ids users nis nns bl co ip pr inc =
     (case resolve_node_names cv nns of
        Inl e \<Rightarrow> Inl e
      | Inr resolved \<Rightarrow>
          Inr (filter
                 (\<lambda>mv. (inc = Some False \<longrightarrow> \<not> mv_is_internal mv)
                     \<and> (case ids of None \<Rightarrow> True | Some ids' \<Rightarrow> mv_group_id mv \<in> set ids')
                     \<and> (case users of None \<Rightarrow> True | Some users' \<Rightarrow> mv_user mv \<in> set users')
                     \<and> (case nis of None \<Rightarrow> True
                         | Some _ \<Rightarrow>
                             set (mv_affected_node_indexes mv)
                               \<inter> (case resolved of
                                    Some idxs \<Rightarrow> set idxs
                                  | None \<Rightarrow> (case nis of Some idxs \<Rightarrow> set idxs | None \<Rightarrow> {}))
                             \<noteq> {})
                     \<and> (case nns of None \<Rightarrow> True
                         | Some _ \<Rightarrow>
                             set (mv_affected_node_indexes mv)
                               \<inter> (case resolved of
                                    Some idxs \<Rightarrow> set idxs
                                  | None \<Rightarrow> (case nis of Some idxs \<Rightarrow> set idxs | None \<Rightarrow> {}))
                             \<noteq> {})
                     \<and> (case pr of None \<Rightarrow> True | Some p \<Rightarrow> mv_priority mv = Some p)
                     \<and> (case bl of None \<Rightarrow> True | Some b \<Rightarrow> mv_is_blocked mv = b)
                     \<and> (case co of None \<Rightarrow> True | Some b \<Rightarrow> mv_is_completed mv = b)
                     \<and> (case ip of None \<Rightarrow> True | Some b \<Rightarrow> mv_is_in_progress mv = b))
                 mvs))"
proof -
  have internal: "(if inc \<noteq> None \<and> inc = Some False then filter (\<lambda>mv. \<not> mv_is_internal mv) mvs else mvs)
      = filter (\<lambda>mv. inc = Some False \<longrightarrow> \<not> mv_is_internal mv) mvs"
    by simp
  show ?thesis
    unfolding filter_maintenance_views_def Let_def internal stage_filter filter_filter
    by (simp add: conj_assoc cong: sum.case_cong)
qed

text \<open>The last-updated cell of the aggregated shard table.\<close>

lemma map_filter_all_None: "(\<And>x. x \<in> set xs \<Longrightarrow> f x = None) \<Longrightarrow> List.map_filter f xs = []"
  by (induction xs) (simp_all add: List.map_filter_simps)

lemma last_updated_at_no_shard_states:
  "nv_shard_states nv = [] \<Longrightarrow> last_updated_at ext nv = Inr ''NEVER''"
  by (simp add: last_updated_at_def)

lemma last_updated_at_no_progress:
  assumes "nv_shard_states nv \<noteq> []"
      and "\<And>ss. ss \<in> set (nv_shard_states nv) \<Longrightarrow> ss_maintenance ss = None"
  shows "last_updated_at ext nv = Inl ValueError"
proof -
  have "List.map_filter
          (\<lambda>ss. case ss_maintenance ss of None \<Rightarrow> None | Some m \<Rightarrow> Some (smp_last_updated_at m))
          (nv_shard_states nv) = []"
    by (rule map_filter_all_None) (simp add: assms(2))
  with assms(1) show ?thesis
    by (simp add: last_updated_at_def py_min_def bind_err_Inl)
qed

lemma py_min_Min: "ts \<noteq> [] \<Longrightarrow> py_min ts = Inr (Min (set ts))"
proof (cases ts)
  case Nil
  assume "ts \<noteq> []"
  with Nil show ?thesis by simp
next
  case (Cons t rest)
  have "Min (set (t # rest)) = fold min rest t"
    by (rule Min.set_eq_fold)
  with Cons show ?thesis
    by (simp add: py_min_def del: list.set)
qed

lemma set_map_filter: "set (List.map_filter f xs) = {y. \<exists>x\<in>set xs. f x = Some y}"
  by (induction xs) (auto simp: List.map_filter_simps split: option.splits)

lemma last_updated_at_earliest:
  assumes "ss \<in> set (nv_shard_states nv)" and "ss_maintenance ss = Some m"
  shows "last_updated_at ext nv =
           Inr (str_datetime ext
                  (Min {smp_last_updated_at m' | ss' m'.
                          ss' \<in> set (nv_shard_states nv) \<and> ss_maintenance ss' = Some m'})
                @ '' (''
                @ naturaltime ext
                    (Min {smp_last_updated_at m' | ss' m'.
                            ss' \<in> set (nv_shard_states nv) \<and> ss_maintenance ss' = Some m'})
                @ '')'')"
proof -
  let ?f = "\<lambda>ss. case ss_maintenance ss of None \<Rightarrow> None | Some m \<Rightarrow> Some (smp_last_updated_at m)"
  let ?ts = "List.map_filter ?f (nv_shard_states nv)"
  have s: "set ?ts = {smp_last_updated_at m' | ss' m'.
                          ss' \<in> set (nv_shard_states nv) \<and> ss_maintenance ss' = Some m'}"
    by (auto simp: set_map_filter split: option.splits)
  have "smp_last_updated_at m \<in> set ?ts"
    unfolding s using assms by blast
  then have ne: "?ts \<noteq> []"
    by auto
  from assms(1) have "nv_shard_states nv \<noteq> []"
    by auto
  then show ?thesis
    by (simp add: last_updated_at_def py_min_Min [OF ne] s bind_err_Inr)
qed

text \<open>Joining and the parts of an expanded record.\<close>

lemma join_snoc: "xs \<noteq> [] \<Longrightarrow> join sep (xs @ [b]) = join sep xs @ sep @ b"
  by (induction sep xs rule: join.induct) auto

lemma join_eq_Nil_iff:
  "(\<And>x. x \<in> set xs \<Longrightarrow> x \<noteq> []) \<Longrightarrow> join sep xs = [] \<longleftrightarrow> xs = []"
  by (induction sep xs rule: join.induct) auto

lemma filter_None_nonempty: "x \<in> set (filter_None parts) \<Longrightarrow> x \<noteq> []"
  by (auto simp: filter_None_def set_map_filter split: option.splits if_splits)

lemma filter_None_snoc:
  "filter_None (parts @ [Some b]) = filter_None parts @ (if b = [] then [] else [b])"
  by (simp add: filter_None_def map_filter_def)

lemma join_filter_None_snoc:
  assumes "b \<noteq> []"
  shows "join sep (filter_None (parts @ [Some b]))
           = (if join sep (filter_None parts) = [] then [] else join sep (filter_None parts) @ sep) @ b"
proof (cases "filter_None parts = []")
  case True
  with assms show ?thesis
    by (simp add: filter_None_snoc)
next
  case False
  moreover from False have "join sep (filter_None parts) \<noteq> []"
    using join_eq_Nil_iff [of "filter_None parts" sep] filter_None_nonempty by blast
  ultimately show ?thesis
    using assms by (simp add: filter_None_snoc join_snoc)
qed

lemma render_expanded_single:
  "render_expanded ext [mv] cv expand_shards show_safety_check_results
     = expanded_one ext show_safety_check_results mv cv expand_shards"
  by (simp add: render_expanded_def bind_err_def split: sum.splits)




section \<open>Properties\<close>

text \<open>
  Claim C1.  For every pair of shard states the satisfaction predicate holds exactly when
  the target is MAY_DISAPPEAR and the current state is one of MAY_DISAPPEAR, DRAINED,
  PROVISIONING and MIGRATING_DATA, or the target is DRAINED and the current state is
  DRAINED; it is false for every other pair.
\<close>

theorem satisfy_shard_op_state_iff:
  "satisfy_shard_op_state cur tgt =
     (tgt = OpState_MAY_DISAPPEAR \<and>
        cur \<in> {OpState_MAY_DISAPPEAR, OpState_DRAINED, OpState_PROVISIONING,
                OpState_MIGRATING_DATA}
      \<or> tgt = OpState_DRAINED \<and> cur = OpState_DRAINED)"
  by (simp add: satisfy_shard_op_state_def)

text \<open>
  Claim C6.  With every criterion absent the filter returns the input sequence itself:
  the same records in the same order, internal records included.
\<close>

theorem filter_no_criteria:
  "filter_maintenance_views mvs cv None None None None None None None None None = Inr mvs"
  by (simp add: filter_maintenance_views_def resolve_node_names_def)

text \<open>
  Claim C7.  When \<open>include_internal_maintenances\<close> is \<open>False\<close>, no record of the
  result is internal.  When it is \<open>True\<close> the result is the one for \<open>None\<close>, and for
  \<open>None\<close> the flag \<open>is_internal\<close> of a record has no influence on its selection: the
  result for \<open>False\<close> is the result for \<open>None\<close> without its internal records, and
  setting the flag of every record to any value \<open>b\<close> selects the same records.
\<close>

theorem internal_visibility:
  "(filter_maintenance_views mvs cv ids users nis nns bl co ip pr (Some False) = Inr out
      \<longrightarrow> (\<forall>mv\<in>set out. \<not> mv_is_internal mv))
   \<and> filter_maintenance_views mvs cv ids users nis nns bl co ip pr (Some True)
       = filter_maintenance_views mvs cv ids users nis nns bl co ip pr None
   \<and> (filter_maintenance_views mvs cv ids users nis nns bl co ip pr None = Inr out'
      \<longrightarrow> filter_maintenance_views mvs cv ids users nis nns bl co ip pr (Some False)
            = Inr (filter (\<lambda>mv. \<not> mv_is_internal mv) out')
        \<and> filter_maintenance_views (map (\<lambda>mv. mv\<lparr>mv_is_internal := b\<rparr>) mvs) cv ids users nis nns
              bl co ip pr None
            = Inr (map (\<lambda>mv. mv\<lparr>mv_is_internal := b\<rparr>) out'))"
proof (intro conjI impI)
  assume "filter_maintenance_views mvs cv ids users nis nns bl co ip pr (Some False) = Inr out"
  then show "\<forall>mv\<in>set out. \<not> mv_is_internal mv"
    by (cases "resolve_node_names cv nns") (auto simp: filter_maintenance_views_alt)
next
  show "filter_maintenance_views mvs cv ids users nis nns bl co ip pr (Some True)
       = filter_maintenance_views mvs cv ids users nis nns bl co ip pr None"
    by (simp add: filter_maintenance_views_def)
next
  assume a: "filter_maintenance_views mvs cv ids users nis nns bl co ip pr None = Inr out'"
  then show "filter_maintenance_views mvs cv ids users nis nns bl co ip pr (Some False)
            = Inr (filter (\<lambda>mv. \<not> mv_is_internal mv) out')"
    by (cases "resolve_node_names cv nns")
       (auto simp: filter_maintenance_views_alt conj_ac)
  from a show "filter_maintenance_views (map (\<lambda>mv. mv\<lparr>mv_is_internal := b\<rparr>) mvs) cv ids users nis nns
              bl co ip pr None
            = Inr (map (\<lambda>mv. mv\<lparr>mv_is_internal := b\<rparr>) out')"
    by (cases "resolve_node_names cv nns")
       (auto simp: filter_maintenance_views_alt filter_map o_def cong: option.case_cong)
qed

theorem internal_visibility_witness:
  "filter_maintenance_views [example_mv, internal_mv] example_cv None None None None None None None
     None (Some False) = Inr [example_mv]
   \<and> \<not> mv_is_internal example_mv
   \<and> mv_is_internal internal_mv
   \<and> filter_maintenance_views [example_mv, internal_mv] example_cv None None None None None None None
       None (Some True) = Inr [example_mv, internal_mv]
   \<and> filter_maintenance_views [example_mv, internal_mv] example_cv None None None None None None None
       None None = Inr [example_mv, internal_mv]
   \<and> filter_maintenance_views (map (\<lambda>mv. mv\<lparr>mv_is_internal := True\<rparr>) [example_mv, internal_mv])
       example_cv None None None None None None None None None
       = Inr (map (\<lambda>mv. mv\<lparr>mv_is_internal := True\<rparr>) [example_mv, internal_mv])"
proof -
  have n: "filter_maintenance_views [example_mv, internal_mv] example_cv None None None None None
             None None None None = Inr [example_mv, internal_mv]"
    by (simp add: filter_maintenance_views_def resolve_node_names_def)
  have i: "\<not> mv_is_internal example_mv" "mv_is_internal internal_mv"
    by (simp_all add: example_mv_def internal_mv_def)
  show ?thesis
    using internal_visibility [of "[example_mv, internal_mv]" example_cv None None None None None
        None None None "[example_mv]" "[example_mv, internal_mv]" True] n i
    by simp
qed

text \<open>
  Claim C2.  The severity classification is total on each kind of value: \<open>color\<close>
  returns exactly one colour, and never raises, for every overall-progress value and for
  every maintenance-status value, and \<open>color_priority\<close> returns exactly one colour
  for every priority value.  In each of the three mappings the last branch is the
  explicit default, taken by every member that is not named.
\<close>

theorem classifiers_total:
  "color (ProgressV p) =
     Inr (if p = MProgress_COMPLETED then ''green''
          else if p = MProgress_BLOCKED_UNTIL_SAFE \<or> p = MProgress_UNKNOWN then ''red''
          else if p = MProgress_IN_PROGRESS then ''yellow''
          else ''white'')
   \<and> color (StatusV s) =
     Inr (if s = MStatus_BLOCKED_UNTIL_SAFE \<or> s = MStatus_REBUILDING_IS_BLOCKED then ''red''
          else if s = MStatus_COMPLETED then ''green''
          else ''yellow'')
   \<and> color_priority (PriorityV q) =
     (if q = MPriority_IMMINENT then ''magenta''
      else if q = MPriority_HIGH then ''red''
      else if q = MPriority_LOW then ''blue''
      else ''white'')"
  by (simp add: color_ProgressV color_StatusV color_maintenance_overall_status_def
      color_maintenance_status_def color_priority_def)

text \<open>
  Claim C9.  When the filtered list of records is empty, \<open>select_and_render\<close> returns the
  message that no maintenance matches, whatever the rendering mode; no renderer is called
  and no table is produced.
\<close>

theorem no_matching_records_message:
  assumes "filter_maintenance_views (get_all_maintenance_views cv) cv ids users node_indexes
             node_names blocked completed in_progress priority None = Inr []"
  shows "select_and_render ext cv ids users node_indexes node_names blocked completed in_progress
           priority rendering_mode
         = Inr (colored ext ''No maintenances matching given criteria'' ''red'')"
  using assms by (simp add: select_and_render_def bind_err_Inr)

theorem no_matching_records_message_witness:
  "filter_maintenance_views (get_all_maintenance_views example_cv) example_cv None (Some [''bob''])
     None None None None None None None = Inr []
   \<and> select_and_render example_ext example_cv None (Some [''bob'']) None None None None None None
       (Some COMPACT)
     = Inr ''red:No maintenances matching given criteria''"
proof -
  have h: "filter_maintenance_views (get_all_maintenance_views example_cv) example_cv None
             (Some [''bob'']) None None None None None None None = Inr []"
    by (simp add: filter_maintenance_views_def resolve_node_names_def
        get_all_maintenance_views_def example_cv_def example_mv_def internal_mv_def)
  show ?thesis
    using no_matching_records_message [OF h, of example_ext "Some COMPACT"] h
    by (simp add: example_ext_def)
qed

text \<open>
  Claim C5.  In a compact row the shard-progress cell (column 3) is the dash when the
  record does not affect shards, and otherwise the chip TARGET(done/total), coloured red
  (danger) when the record is blocked, else yellow (warn) when not all shards are done,
  else green (ok).  The sequencer-progress cell (column 4) is the dash when the record
  does not affect sequencers, and otherwise the chip coloured green or yellow only.  A
  record that affects shards (sequencers) has a shard (sequencer) target state.
\<close>

theorem compact_progress_cells:
  assumes "mv_affects_shards mv \<Longrightarrow> mv_shard_target_state mv = Some tgt"
      and "mv_affects_sequencers mv \<Longrightarrow> mv_sequencer_target_state mv = Some stgt"
  shows "\<exists>row. mv_to_row ext mv cv = Inr row \<and> length row = 10
           \<and> row ! 3 =
               (if mv_affects_shards mv
                then colored ext
                       (ShardOperationalState_name tgt @ ''('' @ str_int (mv_num_shards_done mv)
                          @ ''/'' @ str_int (mv_num_shards_total mv) @ '')'')
                       (if mv_is_blocked mv then ''red''
                        else if \<not> mv_are_all_shards_done mv then ''yellow''
                        else ''green'')
                else ''-'')
           \<and> row ! 4 =
               (if mv_affects_sequencers mv
                then colored ext
                       (SequencingState_name stgt @ ''('' @ str_int (mv_num_sequencers_done mv)
                          @ ''/'' @ str_int (mv_num_sequencers_total mv) @ '')'')
                       (if mv_are_all_sequencers_done mv then ''green'' else ''yellow'')
                else ''-'')"
  using assms
  by (simp add: mv_to_row_def color_ProgressV bind_err_Inr shard_progress_def
      sequencer_progress_def Let_def)

theorem compact_progress_cells_witness:
  "mv_affects_shards example_mv
   \<and> mv_shard_target_state example_mv = Some OpState_DRAINED
   \<and> mv_affects_sequencers example_mv
   \<and> mv_sequencer_target_state example_mv = Some (SequencingState ''DISABLED'')
   \<and> (\<exists>row. mv_to_row example_ext example_mv example_cv = Inr row \<and> length row = 10
          \<and> row ! 3 = ''red:DRAINED(0/1)'' \<and> row ! 4 = ''yellow:DISABLED(0/1)'')"
proof -
  have h: "mv_affects_shards example_mv" "mv_shard_target_state example_mv = Some OpState_DRAINED"
    "mv_affects_sequencers example_mv"
    "mv_sequencer_target_state example_mv = Some (SequencingState ''DISABLED'')"
    by (simp_all add: example_mv_def)
  have d: "str_int 0 = ''0''" "str_int 1 = ''1''"
    by (simp_all add: str_int_def str_nat_digit digit_char_def)
  have v: "mv_is_blocked example_mv" "mv_num_shards_done example_mv = 0"
    "mv_num_shards_total example_mv = 1" "mv_num_sequencers_done example_mv = 0"
    "mv_num_sequencers_total example_mv = 1" "\<not> mv_are_all_sequencers_done example_mv"
    by (simp_all add: example_mv_def)
  have c: "colored example_ext t col = col @ '':'' @ t" for t col
    by (simp add: example_ext_def)
  obtain row where row: "mv_to_row example_ext example_mv example_cv = Inr row" "length row = 10"
    and r3: "row ! 3 =
               (if mv_affects_shards example_mv
                then colored example_ext
                       (ShardOperationalState_name OpState_DRAINED @ ''(''
                          @ str_int (mv_num_shards_done example_mv)
                          @ ''/'' @ str_int (mv_num_shards_total example_mv) @ '')'')
                       (if mv_is_blocked example_mv then ''red''
                        else if \<not> mv_are_all_shards_done example_mv then ''yellow''
                        else ''green'')
                else ''-'')"
    and r4: "row ! 4 =
               (if mv_affects_sequencers example_mv
                then colored example_ext
                       (SequencingState_name (SequencingState ''DISABLED'') @ ''(''
                          @ str_int (mv_num_sequencers_done example_mv)
                          @ ''/'' @ str_int (mv_num_sequencers_total example_mv) @ '')'')
                       (if mv_are_all_sequencers_done example_mv then ''green'' else ''yellow'')
                else ''-'')"
    using compact_progress_cells [OF h(2) h(4), of example_ext example_cv] by blast
  have "row ! 3 = ''red:DRAINED(0/1)''"
    unfolding r3 by (simp add: h v d c)
  moreover have "row ! 4 = ''yellow:DISABLED(0/1)''"
    unfolding r4 by (simp add: h v d c)
  ultimately have "\<exists>row. mv_to_row example_ext example_mv example_cv = Inr row \<and> length row = 10
          \<and> row ! 3 = ''red:DRAINED(0/1)'' \<and> row ! 4 = ''yellow:DISABLED(0/1)''"
    using row by blast
  with h show ?thesis
    by (intro conjI)
qed

text \<open>
  Claim C8.  When \<open>node_names\<close> is given and one of the names does not resolve, the call
  of the filter fails with \<open>NodeNotFoundError\<close>, whatever the records and the other
  criteria are, and returns no records.  When every name resolves, the records returned
  are records of the input that affect one of the resolved node indexes.
\<close>

theorem filter_node_names_resolution:
  "(n \<in> set names \<and> get_node_index cv n = Inl e
      \<longrightarrow> filter_maintenance_views mvs cv ids users nis (Some names) bl co ip pr inc
            = Inl NodeNotFoundError)
   \<and> (map_err (get_node_index cv) names = Inr idxs
      \<longrightarrow> (\<exists>out. filter_maintenance_views mvs cv ids users nis (Some names) bl co ip pr inc = Inr out
              \<and> set out \<subseteq> set mvs
              \<and> (\<forall>mv\<in>set out. set (mv_affected_node_indexes mv) \<inter> set idxs \<noteq> {})))"
proof (intro conjI impI)
  assume a: "n \<in> set names \<and> get_node_index cv n = Inl e"
  from a have "\<exists>e'. map_err (get_node_index cv) names = Inl e'"
    by (intro map_err_Inl [of n names "get_node_index cv" e]) simp_all
  then obtain e' where e': "map_err (get_node_index cv) names = Inl e'" ..
  from map_err_Inl_elem [OF e'] obtain m where "get_node_index cv m = Inl e'" ..
  then have "e' = NodeNotFoundError"
    by (rule get_node_index_error)
  with e' have "resolve_node_names cv (Some names) = Inl NodeNotFoundError"
    by (simp add: resolve_node_names_def)
  then show "filter_maintenance_views mvs cv ids users nis (Some names) bl co ip pr inc
            = Inl NodeNotFoundError"
    by (simp add: filter_maintenance_views_alt)
next
  assume r: "map_err (get_node_index cv) names = Inr idxs"
  have res: "resolve_node_names cv (Some names) = Inr (Some idxs)"
    by (simp add: resolve_node_names_def r)
  obtain out where out: "filter_maintenance_views mvs cv ids users nis (Some names) bl co ip pr inc
                           = Inr out"
    by (simp add: filter_maintenance_views_alt res)
  have "mv \<in> set mvs \<and> set (mv_affected_node_indexes mv) \<inter> set idxs \<noteq> {}" if "mv \<in> set out" for mv
  proof -
    from out have "out = filter
                 (\<lambda>mv. (inc = Some False \<longrightarrow> \<not> mv_is_internal mv)
                     \<and> (case ids of None \<Rightarrow> True | Some ids' \<Rightarrow> mv_group_id mv \<in> set ids')
                     \<and> (case users of None \<Rightarrow> True | Some users' \<Rightarrow> mv_user mv \<in> set users')
                     \<and> (case nis of None \<Rightarrow> True
                         | Some _ \<Rightarrow> set (mv_affected_node_indexes mv) \<inter> set idxs \<noteq> {})
                     \<and> set (mv_affected_node_indexes mv) \<inter> set idxs \<noteq> {}
                     \<and> (case pr of None \<Rightarrow> True | Some p \<Rightarrow> mv_priority mv = Some p)
                     \<and> (case bl of None \<Rightarrow> True | Some b \<Rightarrow> mv_is_blocked mv = b)
                     \<and> (case co of None \<Rightarrow> True | Some b \<Rightarrow> mv_is_completed mv = b)
                     \<and> (case ip of None \<Rightarrow> True | Some b \<Rightarrow> mv_is_in_progress mv = b))
                 mvs"
      by (simp add: filter_maintenance_views_alt res cong: option.case_cong)
    with that show ?thesis
      by simp
  qed
  with out show "\<exists>out. filter_maintenance_views mvs cv ids users nis (Some names) bl co ip pr inc = Inr out
              \<and> set out \<subseteq> set mvs
              \<and> (\<forall>mv\<in>set out. set (mv_affected_node_indexes mv) \<inter> set idxs \<noteq> {})"
    by (intro exI [of _ out]) blast
qed

theorem filter_node_names_resolution_witness:
  "''nodeX'' \<in> set [''node1'', ''nodeX'']
   \<and> get_node_index example_cv ''nodeX'' = Inl NodeNotFoundError
   \<and> filter_maintenance_views [example_mv, internal_mv] example_cv None None None
       (Some [''node1'', ''nodeX'']) None None None None None = Inl NodeNotFoundError
   \<and> map_err (get_node_index example_cv) [''node1''] = Inr [1]
   \<and> (\<exists>out. filter_maintenance_views [example_mv, internal_mv] example_cv None None None
               (Some [''node1'']) None None None None None = Inr out
          \<and> set out \<subseteq> set [example_mv, internal_mv])"
proof -
  have x: "get_node_index example_cv ''nodeX'' = Inl NodeNotFoundError"
    by (simp add: get_node_index_def example_cv_def)
  have r: "map_err (get_node_index example_cv) [''node1''] = Inr [1]"
    by (simp add: get_node_index_def example_cv_def)
  have m: "''nodeX'' \<in> set [''node1'', ''nodeX'']"
    by simp
  note t = filter_node_names_resolution [of "''nodeX''" "[''node1'', ''nodeX'']" example_cv
        NodeNotFoundError "[example_mv, internal_mv]" None None None None None None None None "[1]"]
  note t' = filter_node_names_resolution [of "''nodeX''" "[''node1'']" example_cv
        NodeNotFoundError "[example_mv, internal_mv]" None None None None None None None None "[1]"]
  have f1: "filter_maintenance_views [example_mv, internal_mv] example_cv None None None
       (Some [''node1'', ''nodeX'']) None None None None None = Inl NodeNotFoundError"
    by (rule t [THEN conjunct1, rule_format, OF conjI [OF m x]])
  obtain out where o: "filter_maintenance_views [example_mv, internal_mv] example_cv None None None
               (Some [''node1'']) None None None None None = Inr out"
    "set out \<subseteq> set [example_mv, internal_mv]"
    using t' [THEN conjunct2, rule_format, OF r] by (elim exE conjE)
  have f2: "\<exists>out. filter_maintenance_views [example_mv, internal_mv] example_cv None None None
               (Some [''node1'']) None None None None None = Inr out
          \<and> set out \<subseteq> set [example_mv, internal_mv]"
    using o by (intro exI conjI)
  show ?thesis
    by (intro conjI m x f1 r f2)
qed

text \<open>
  Claim C3.  The last-updated cell of a node is the earliest last-updated time of the
  shard states of the node that carry a maintenance progress
  (\<open>last_updated_at_earliest\<close>), and \<open>NEVER\<close> when the node has no shard states
  (\<open>last_updated_at_no_shard_states\<close>).  When the node has shard states and none of them
  carries a maintenance progress, \<^verbatim>\<open>min\<close> receives an empty generator and raises
  \<^verbatim>\<open>ValueError\<close> (\<open>last_updated_at_no_progress\<close>): the sentinel is not shown.
  The command \<^verbatim>\<open>maintenance show\<close> on the snapshot \<open>fresh_cv\<close> ends so.
\<close>

theorem aggregated_last_updated_raises:
  "select_and_render example_ext fresh_cv None None None None None None None None (Some EXPANDED)
     = Inl ValueError"
  by code_simp

text \<open>
  Claim C4.  For a record whose overall status is BLOCKED_UNTIL_SAFE and that has an
  impact result, rendering in the mode EXPANDED_WITH_SAFETY_CHECKS gives the text of the
  mode EXPANDED followed by the safety-impact block (the heading
  \<open>Safety Check Impact:\<close> and the text of the formatter), and fails exactly when the mode
  EXPANDED fails; the text of the mode EXPANDED is made of the overview, the shard block
  and the sequencer block only.
\<close>

theorem safety_impact_block:
  assumes "mv_overall_status mv = MProgress_BLOCKED_UNTIL_SAFE"
      and "mv_last_check_impact_result mv = Some r"
  shows "render ext [mv] cv EXPANDED_WITH_SAFETY_CHECKS =
           (case render ext [mv] cv EXPANDED of
              Inl e \<Rightarrow> Inl e
            | Inr out \<Rightarrow>
                Inr ((if out = [] then [] else out @ nl @ nl)
                     @ ''Safety Check Impact:'' @ nl @ nl
                     @ check_impact_string ext (Some r)
                         (concat (map (mv_get_shards_by_node_index mv) (mv_affected_node_indexes mv)))
                         (mv_shard_target_state mv)))
         \<and> render ext [mv] cv EXPANDED =
             bind_err (overview ext mv cv) (\<lambda>overview'.
               bind_err (shards ext mv cv False) (\<lambda>shards'.
                 bind_err (sequencers ext mv cv) (\<lambda>sequencers'.
                   Inr (join (nl @ nl) (filter_None [Some overview', shards', sequencers'])))))"
proof -
  define block where
    "block = ''Safety Check Impact:'' @ nl @ nl
               @ check_impact_string ext (Some r)
                   (concat (map (mv_get_shards_by_node_index mv) (mv_affected_node_indexes mv)))
                   (mv_shard_target_state mv)"
  have bne: "block \<noteq> []"
    by (simp add: block_def)
  have im_T: "impact ext mv True = block"
    by (simp add: impact_def assms block_def Let_def)
  have im_F: "impact ext mv False = []"
    by (simp add: impact_def)
  have plain: "filter_None [Some o', s, q, Some []] = filter_None [Some o', s, q]" for o' s q
    using filter_None_snoc [of "[Some o', s, q]" "[]"] by simp
  have safe: "join (nl @ nl) (filter_None [Some o', s, q, Some block])
      = (if join (nl @ nl) (filter_None [Some o', s, q]) = [] then []
         else join (nl @ nl) (filter_None [Some o', s, q]) @ nl @ nl) @ block" for o' s q
    using join_filter_None_snoc [OF bne, of "nl @ nl" "[Some o', s, q]"] by simp
  have r_plain: "render ext [mv] cv EXPANDED = expanded_one ext False mv cv False"
    by (simp add: render_def render_expanded_single)
  have r_safe: "render ext [mv] cv EXPANDED_WITH_SAFETY_CHECKS = expanded_one ext True mv cv False"
    by (simp add: render_def render_expanded_with_safety_checks_def render_expanded_single)
  have one_plain: "expanded_one ext False mv cv False =
             bind_err (overview ext mv cv) (\<lambda>overview'.
               bind_err (shards ext mv cv False) (\<lambda>shards'.
                 bind_err (sequencers ext mv cv) (\<lambda>sequencers'.
                   Inr (join (nl @ nl) (filter_None [Some overview', shards', sequencers'])))))"
    by (simp add: expanded_one_def im_F plain)
  have one_safe: "expanded_one ext True mv cv False =
           (case expanded_one ext False mv cv False of
              Inl e \<Rightarrow> Inl e
            | Inr out \<Rightarrow> Inr ((if out = [] then [] else out @ nl @ nl) @ block))"
    unfolding one_plain
    by (simp add: expanded_one_def im_T safe bind_err_def split: sum.splits)
  show ?thesis
    unfolding r_plain r_safe one_safe block_def
    by (simp add: one_plain)
qed

theorem safety_impact_block_witness:
  "mv_overall_status example_mv = MProgress_BLOCKED_UNTIL_SAFE
   \<and> mv_last_check_impact_result example_mv = Some (CheckImpactResponse [''REBUILDING_STALL''])
   \<and> (\<exists>out. render example_ext [example_mv] example_cv EXPANDED = Inr out \<and> out \<noteq> []
          \<and> render example_ext [example_mv] example_cv EXPANDED_WITH_SAFETY_CHECKS
              = Inr (out @ nl @ nl @ ''Safety Check Impact:'' @ nl @ nl @ ''impact''))"
proof -
  have h: "mv_overall_status example_mv = MProgress_BLOCKED_UNTIL_SAFE"
    "mv_last_check_impact_result example_mv = Some (CheckImpactResponse [''REBUILDING_STALL''])"
    by (simp_all add: example_mv_def)
  have e: "case render example_ext [example_mv] example_cv EXPANDED of
             Inl _ \<Rightarrow> False | Inr out \<Rightarrow> out \<noteq> []"
    by code_simp
  then obtain out where out: "render example_ext [example_mv] example_cv EXPANDED = Inr out"
    "out \<noteq> []"
    by (cases "render example_ext [example_mv] example_cv EXPANDED") auto
  have c: "check_impact_string example_ext a b c = ''impact''" for a b c
    by (simp add: example_ext_def)
  have "render example_ext [example_mv] example_cv EXPANDED_WITH_SAFETY_CHECKS
          = Inr (out @ nl @ nl @ ''Safety Check Impact:'' @ nl @ nl @ ''impact'')"
    using safety_impact_block [OF h, of example_ext example_cv, THEN conjunct1] out
    by (simp add: c)
  with out h show ?thesis
    by blast
qed



end
